theory Spec2Isabelle
  imports Complex_Main
begin

section \<open>The linear algebra of \<^verbatim>\<open>src/types.h\<close>\<close>

text \<open>
  \<^verbatim>\<open>struct float3 { float x,y,z; float & operator [] (int i) { return (&x)[i]; } };\<close>
  \<^verbatim>\<open>struct float3x3 { float3 x,y,z; float & operator () (int i, int j) { return (&x)[j][i]; } };\<close>
  \<^verbatim>\<open>struct pose { float3x3 orientation; float3 position; };\<close>

  The scalar type is a parameter \<open>'a\<close> of which only the operation symbols that the code
  applies are required (\<open>plus\<close>, \<open>times\<close>, and \<open>uminus\<close>, \<open>one\<close> for the literal \<open>-1\<close>);
  no law of arithmetic is assumed of them, and the order of the operations is the order
  of the C++ expressions. A statement proved for every such \<open>'a\<close> therefore holds for
  single-precision arithmetic as well as for the reals. Concrete evaluations are done at
  type \<open>real\<close> on small whole numbers, which single precision represents and adds and
  multiplies without rounding.

  The fields \<open>x\<close>, \<open>y\<close>, \<open>z\<close> of \<open>float3\<close> are \<open>f3_x\<close>, \<open>f3_y\<close>, \<open>f3_z\<close> here, and the
  three \<open>float3\<close> members \<open>x\<close>, \<open>y\<close>, \<open>z\<close> of \<open>float3x3\<close> are \<open>col_x\<close>, \<open>col_y\<close>, \<open>col_z\<close>.
\<close>

record 'a float3 =
  f3_x :: 'a
  f3_y :: 'a
  f3_z :: 'a

record 'a float3x3 =
  col_x :: "'a float3"
  col_y :: "'a float3"
  col_z :: "'a float3"

record 'a pose =
  orientation :: "'a float3x3"
  position :: "'a float3"

text \<open>
  \<open>float3::operator[]\<close> is \<open>(&x)[i]\<close>: the \<open>i\<close>-th of the three consecutive members.
  An index outside \<open>0..2\<close> reads past the object, which C++ leaves undefined: \<open>None\<close>.
\<close>

definition float3_at :: "'a float3 \<Rightarrow> int \<Rightarrow> 'a option" where
  "float3_at v i =
     (if i = 0 then Some (f3_x v)
      else if i = 1 then Some (f3_y v)
      else if i = 2 then Some (f3_z v)
      else None)"

text \<open>
  The pointer step \<open>(&x)[j]\<close> inside \<open>float3x3::operator()\<close>: the \<open>j\<close>-th stored
  \<open>float3\<close> member of the matrix.
\<close>

definition float3x3_member :: "'a float3x3 \<Rightarrow> int \<Rightarrow> 'a float3 option" where
  "float3x3_member m j =
     (if j = 0 then Some (col_x m)
      else if j = 1 then Some (col_y m)
      else if j = 2 then Some (col_z m)
      else None)"

text \<open>\<open>float3x3::operator()(i, j)\<close> is \<open>(&x)[j][i]\<close>.\<close>

definition float3x3_at :: "'a float3x3 \<Rightarrow> int \<Rightarrow> int \<Rightarrow> 'a option" where
  "float3x3_at m i j =
     (case float3x3_member m j of
        None \<Rightarrow> None
      | Some c \<Rightarrow> float3_at c i)"

text \<open>\<open>operator + (float3, float3)\<close>: \<open>{a.x+b.x, a.y+b.y, a.z+b.z}\<close>.\<close>

definition float3_add :: "'a::plus float3 \<Rightarrow> 'a float3 \<Rightarrow> 'a float3" where
  "float3_add a b =
     \<lparr>f3_x = f3_x a + f3_x b, f3_y = f3_y a + f3_y b, f3_z = f3_z a + f3_z b\<rparr>"

text \<open>\<open>operator * (float3, float)\<close>: \<open>{a.x*b, a.y*b, a.z*b}\<close>.\<close>

definition float3_scale :: "'a::times float3 \<Rightarrow> 'a \<Rightarrow> 'a float3" where
  "float3_scale a b = \<lparr>f3_x = f3_x a * b, f3_y = f3_y a * b, f3_z = f3_z a * b\<rparr>"

text \<open>\<open>operator * (float3x3, float3)\<close>: \<open>a.x*b.x + a.y*b.y + a.z*b.z\<close>, summed from the left.\<close>

definition float3x3_apply :: "'a::{plus,times} float3x3 \<Rightarrow> 'a float3 \<Rightarrow> 'a float3" where
  "float3x3_apply a b =
     float3_add
       (float3_add (float3_scale (col_x a) (f3_x b)) (float3_scale (col_y a) (f3_y b)))
       (float3_scale (col_z a) (f3_z b))"

text \<open>\<open>operator * (float3x3, float3x3)\<close>: \<open>{a*b.x, a*b.y, a*b.z}\<close>.\<close>

definition float3x3_mul :: "'a::{plus,times} float3x3 \<Rightarrow> 'a float3x3 \<Rightarrow> 'a float3x3" where
  "float3x3_mul a b =
     \<lparr>col_x = float3x3_apply a (col_x b),
      col_y = float3x3_apply a (col_y b),
      col_z = float3x3_apply a (col_z b)\<rparr>"

text \<open>
  \<open>transpose\<close> (here \<open>transpose_float3x3\<close>; the name is taken by a list function):
  \<open>{{a.x.x,a.y.x,a.z.x}, {a.x.y,a.y.y,a.z.y}, {a.x.z,a.y.z,a.z.z}}\<close>.
\<close>

definition transpose_float3x3 :: "'a float3x3 \<Rightarrow> 'a float3x3" where
  "transpose_float3x3 a =
     \<lparr>col_x = \<lparr>f3_x = f3_x (col_x a), f3_y = f3_x (col_y a), f3_z = f3_x (col_z a)\<rparr>,
      col_y = \<lparr>f3_x = f3_y (col_x a), f3_y = f3_y (col_y a), f3_z = f3_y (col_z a)\<rparr>,
      col_z = \<lparr>f3_x = f3_z (col_x a), f3_y = f3_z (col_y a), f3_z = f3_z (col_z a)\<rparr>\<rparr>"

text \<open>\<open>operator * (pose, float3)\<close>: \<open>a.orientation * b + a.position\<close>.\<close>

definition pose_apply :: "'a::{plus,times} pose \<Rightarrow> 'a float3 \<Rightarrow> 'a float3" where
  "pose_apply a b = float3_add (float3x3_apply (orientation a) b) (position a)"

text \<open>
  \<open>operator * (pose, pose)\<close>:
  \<open>{a.orientation * b.orientation, a.position + a * b.position}\<close>.
  In the second component \<open>a\<close> is the pose, so \<open>a * b.position\<close> is \<open>pose_apply\<close>.
\<close>

definition pose_mul :: "'a::{plus,times} pose \<Rightarrow> 'a pose \<Rightarrow> 'a pose" where
  "pose_mul a b =
     \<lparr>orientation = float3x3_mul (orientation a) (orientation b),
      position = float3_add (position a) (pose_apply a (position b))\<rparr>"

text \<open>
  \<open>inverse\<close>: \<open>auto inv = transpose(a.orientation); return {inv, inv * a.position * -1};\<close>
  The product associates to the left: \<open>(inv * a.position) * -1\<close>.
\<close>

definition inverse_pose :: "'a::{plus,times,uminus,one} pose \<Rightarrow> 'a pose" where
  "inverse_pose a =
     (let inv = transpose_float3x3 (orientation a)
      in \<lparr>orientation = inv,
          position = float3_scale (float3x3_apply inv (position a)) (- 1)\<rparr>)"

section \<open>Enumerated type support\<close>

text \<open>
  \<^verbatim>\<open>#define RS_ENUM_HELPERS(TYPE, PREFIX) const char * get_string(TYPE value); \<close>
  \<^verbatim>\<open>  inline bool is_valid(TYPE value) { return value >= 0 && value < RS_##PREFIX##_COUNT; } \<close>
  \<^verbatim>\<open>  inline std::ostream & operator << (std::ostream & out, TYPE value)\<close>
  \<^verbatim>\<open>  { if(is_valid(value)) return out << get_string(value); else return out << (int)value; }\<close>

  The macro is expanded for \<open>rs_stream\<close>, \<open>rs_format\<close>, \<open>rs_preset\<close>, \<open>rs_distortion\<close> and
  \<open>rs_option\<close>. The five expansions differ in the sentinel \<open>RS_<PREFIX>_COUNT\<close> and in the
  \<open>get_string\<close> overload only. Both come from outside this header (\<open>rs.h\<close> and the
  translation unit that implements \<open>get_string\<close>), so they are arguments here: \<open>COUNT\<close>
  is the sentinel, and \<open>get_string\<close> gives the C string returned for a value, \<open>None\<close> for a
  null pointer. An enumeration value is the integer it converts to in the comparisons.
\<close>

type_synonym rs_enum = int

definition is_valid :: "int \<Rightarrow> rs_enum \<Rightarrow> bool" where
  "is_valid COUNT v = (v \<ge> 0 \<and> v < COUNT)"

text \<open>
  The characters that \<open>out << (int)value\<close> appends with the stream's default formatting:
  decimal digits, most significant first, and a leading minus sign for a negative value.
\<close>

definition digit_char :: "nat \<Rightarrow> char" where
  "digit_char d = ''0123456789'' ! d"

fun decimal_nat :: "nat \<Rightarrow> string" where
  "decimal_nat n =
     (if n < 10 then [digit_char n]
      else decimal_nat (n div 10) @ [digit_char (n mod 10)])"

definition decimal_int :: "int \<Rightarrow> string" where
  "decimal_int i =
     (if i < 0 then CHR ''-'' # decimal_nat (nat (- i)) else decimal_nat (nat i))"

text \<open>
  \<open>operator <<\<close> for an enumeration. The stream is the sequence of characters written to
  it so far. Inserting a null \<open>const char *\<close> is not an output: the result is \<open>None\<close>.
\<close>

definition put_string :: "string \<Rightarrow> string option \<Rightarrow> string option" where
  "put_string out s = (case s of None \<Rightarrow> None | Some cs \<Rightarrow> Some (out @ cs))"

definition put_enum :: "(rs_enum \<Rightarrow> string option) \<Rightarrow> int \<Rightarrow> string \<Rightarrow> rs_enum \<Rightarrow> string option" where
  "put_enum get_string COUNT out v =
     (if is_valid COUNT v then put_string out (get_string v)
      else Some (out @ decimal_int v))"

section \<open>The field-of-view helper of \<^verbatim>\<open>examples/cpp-capture.cpp\<close>\<close>

text \<open>
  \<^verbatim>\<open>float compute_fov(int image_size, float focal_length, float principal_point)\<close>
  \<^verbatim>\<open>{ return (atan2f(principal_point + 0.5f, focal_length)\<close>
  \<^verbatim>\<open>         + atan2f(image_size - principal_point - 0.5f, focal_length)) * 180.0f / (float)M_PI; }\<close>

  This function calls the C library and uses the constant \<open>M_PI\<close>, so it is modelled in
  exact real arithmetic: \<open>float\<close> is \<open>real\<close>, \<open>(float)M_PI\<close> is \<open>pi\<close>, and \<open>atan2f\<close> is the
  two-argument arctangent, the angle in \<open>(-pi, pi]\<close> of the point \<open>(x, y)\<close>. The rounding
  of single precision is not part of the model.
\<close>

definition atan2f :: "real \<Rightarrow> real \<Rightarrow> real" where
  "atan2f y x =
     (if 0 < x then arctan (y / x)
      else if x < 0 then (if 0 \<le> y then arctan (y / x) + pi else arctan (y / x) - pi)
      else if 0 < y then pi / 2
      else if y < 0 then - (pi / 2)
      else 0)"

definition compute_fov :: "int \<Rightarrow> real \<Rightarrow> real \<Rightarrow> real" where
  "compute_fov image_size focal_length principal_point =
     (atan2f (principal_point + 0.5) focal_length
      + atan2f (real_of_int image_size - principal_point - 0.5) focal_length) * 180 / pi"

text \<open>
  The specification's "converted from radians to degrees": a half turn, \<open>pi\<close> radians, is
  \<open>180\<close> degrees.
\<close>

definition radians_to_degrees :: "real \<Rightarrow> real" where
  "radians_to_degrees r = r * (180 / pi)"

section \<open>Static camera info\<close>

text \<open>
  The UVC frame formats, \<open>enum class frame_format\<close>, with their numeric values.
\<close>

datatype frame_format = ANY | YUYV | Y12I | Y8 | Z16 | INVI | INVR | INRI

fun frame_format_value :: "frame_format \<Rightarrow> int" where
  "frame_format_value ANY = 0"
| "frame_format_value YUYV = 3"
| "frame_format_value Y12I = 5"
| "frame_format_value Y8 = 7"
| "frame_format_value Z16 = 8"
| "frame_format_value INVI = 14"
| "frame_format_value INVR = 16"
| "frame_format_value INRI = 18"

text \<open>
  The structures of the mode catalog. Several of them have members called \<open>width\<close>,
  \<open>height\<close>, \<open>format\<close> and \<open>fps\<close>; these carry a prefix here (\<open>req_\<close> in \<open>stream_request\<close>,
  \<open>sm_\<close> in \<open>stream_mode\<close>, \<open>sdm_\<close> in \<open>subdevice_mode\<close>), and the members of
  \<open>interstream_rule\<close> carry \<open>rule_\<close>. A stream identifier \<open>rs_stream\<close> is its index into
  the arrays of \<open>RS_STREAM_COUNT\<close> entries, which are lists.
\<close>

type_synonym rs_stream = nat

record stream_request =
  enabled :: bool
  req_width :: int
  req_height :: int
  req_format :: rs_enum
  req_fps :: int

record stream_mode =
  stream :: rs_stream
  sm_width :: int
  sm_height :: int
  sm_format :: rs_enum
  sm_fps :: int
  intrinsics_index :: int

text \<open>
  The member \<open>unpacker\<close> points to one of the seven unpacking routines that the header
  declares; \<open>frame_number_decoder\<close> points to a routine of which the header declares none,
  and is kept as an opaque handle.
\<close>

datatype unpacker_routine =
  unpack_strided_image
| unpack_y12i_to_y8
| unpack_y12i_to_y16
| unpack_yuyv_to_rgb
| unpack_yuyv_to_rgba
| unpack_yuyv_to_bgr
| unpack_yuyv_to_bgra

record subdevice_mode =
  subdevice :: int
  sdm_width :: int
  sdm_height :: int
  sdm_format :: frame_format
  sdm_fps :: int
  streams :: "stream_mode list"
  unpacker :: unpacker_routine
  frame_number_decoder :: nat

text \<open>
  \<open>interstream_rule\<close> requires \<open>a.*field + delta == b.*field\<close>. Its member \<open>field\<close> has type
  \<open>int stream_request::*\<close>, a pointer to one of the \<open>int\<close> members of \<open>stream_request\<close>:
  \<open>width\<close>, \<open>height\<close> or \<open>fps\<close>.
\<close>

datatype request_field = field_width | field_height | field_fps

record interstream_rule =
  rule_a :: rs_stream
  rule_b :: rs_stream
  rule_field :: request_field
  rule_delta :: int

record static_camera_info =
  name :: string
  stream_subdevices :: "int list"
  subdevice_modes :: "subdevice_mode list"
  interstream_rules :: "interstream_rule list"
  presets :: "stream_request list list"
  option_supported :: "bool list"

text \<open>The value that a member pointer of a rule selects in a request.\<close>

fun request_field_value :: "request_field \<Rightarrow> stream_request \<Rightarrow> int" where
  "request_field_value field_width r = req_width r"
| "request_field_value field_height r = req_height r"
| "request_field_value field_fps r = req_fps r"

section \<open>Mode selection\<close>

text \<open>
  The header declares
  \<^verbatim>\<open>const subdevice_mode * select_mode(const stream_request (&requests)[RS_STREAM_COUNT], int subdevice_index) const;\<close>
  and its body is in a translation unit that is not part of the sources at hand. The
  definitions of this section follow section 4.1 of the specification, sentence by
  sentence. Two things come from outside: \<open>RS_FORMAT_ANY\<close>, the format value that stands
  for "any", and \<open>overhead\<close>, the cost of the unpack path of a wire format, which the
  specification's tie-break compares.
\<close>

text \<open>
  Modelled from the spec: the request of a stream in the body of \<open>select_mode\<close>, which is
  missing. There is one request per stream identifier; an identifier beyond the array has
  none.
\<close>

definition request_at :: "stream_request list \<Rightarrow> rs_stream \<Rightarrow> stream_request option" where
  "request_at requests s = (if s < length requests then Some (requests ! s) else None)"

text \<open>
  Modelled from the spec: "whose stream is marked enabled in requests", for the missing
  body of \<open>select_mode\<close>.
\<close>

definition stream_enabled :: "stream_request list \<Rightarrow> rs_stream \<Rightarrow> bool" where
  "stream_enabled requests s =
     (case request_at requests s of None \<Rightarrow> False | Some r \<Rightarrow> enabled r)"

text \<open>
  Modelled from the spec: the comparison of a request with a StreamMode in the missing
  body of \<open>select_mode\<close>. "The request's width/height (if nonzero), format (if not "any"),
  and fps (if nonzero) exactly equal the StreamMode's corresponding fields. A "don't care"
  field in the request (zero or "any") always matches."
\<close>

definition request_matches :: "rs_enum \<Rightarrow> stream_request \<Rightarrow> stream_mode \<Rightarrow> bool" where
  "request_matches RS_FORMAT_ANY r sm =
     ((req_width r = 0 \<or> req_width r = sm_width sm)
      \<and> (req_height r = 0 \<or> req_height r = sm_height sm)
      \<and> (req_format r = RS_FORMAT_ANY \<or> req_format r = sm_format sm)
      \<and> (req_fps r = 0 \<or> req_fps r = sm_fps sm))"

text \<open>
  Modelled from the spec: the first candidate condition of the missing body of
  \<open>select_mode\<close>. "A SubdeviceMode is a candidate only if, for every StreamMode it embeds
  whose stream is marked enabled in requests", the request matches the StreamMode.
\<close>

definition mode_matches_requests :: "rs_enum \<Rightarrow> stream_request list \<Rightarrow> subdevice_mode \<Rightarrow> bool" where
  "mode_matches_requests RS_FORMAT_ANY requests m =
     list_all
       (\<lambda>sm. case request_at requests (stream sm) of
                None \<Rightarrow> True
              | Some r \<Rightarrow> if enabled r then request_matches RS_FORMAT_ANY r sm else True)
       (streams m)"

text \<open>
  Modelled from the spec: "maps (via the owning StaticCameraInfo) to this sub-device", for
  the missing body of \<open>select_mode\<close>: the entry of \<open>stream_subdevices\<close> for a stream.
\<close>

definition subdevice_of_stream :: "static_camera_info \<Rightarrow> rs_stream \<Rightarrow> int option" where
  "subdevice_of_stream info s =
     (if s < length (stream_subdevices info) then Some (stream_subdevices info ! s) else None)"

text \<open>
  Modelled from the spec: the second candidate condition of the missing body of
  \<open>select_mode\<close>. "A SubdeviceMode is a candidate only if no enabled request maps (via the
  owning StaticCameraInfo) to this sub-device while missing a corresponding StreamMode
  entry in this mode."
\<close>

definition mode_covers_requests ::
  "static_camera_info \<Rightarrow> stream_request list \<Rightarrow> int \<Rightarrow> subdevice_mode \<Rightarrow> bool" where
  "mode_covers_requests info requests subdevice_index m =
     list_all
       (\<lambda>s. if stream_enabled requests s \<and> subdevice_of_stream info s = Some subdevice_index
            then s \<in> set (map stream (streams m))
            else True)
       [0 ..< length requests]"

text \<open>
  Modelled from the spec: the rule as "a pre-filter on requests", in the missing body of
  \<open>select_mode\<close>. "Apply every InterstreamRule whose both streams are enabled in requests:
  reject the candidate set unless the rule's equation holds using the requested values,
  not the candidate's advertised values." A rule that meets a "don't care" value (zero) on
  either side is left to the check of the candidate mode below.
\<close>

definition requests_obey_rule :: "stream_request list \<Rightarrow> interstream_rule \<Rightarrow> bool" where
  "requests_obey_rule requests rl =
     (case (request_at requests (rule_a rl), request_at requests (rule_b rl)) of
        (Some ra, Some rb) \<Rightarrow>
          if enabled ra \<and> enabled rb
             \<and> request_field_value (rule_field rl) ra \<noteq> 0
             \<and> request_field_value (rule_field rl) rb \<noteq> 0
          then request_field_value (rule_field rl) ra + rule_delta rl
               = request_field_value (rule_field rl) rb
          else True
      | _ \<Rightarrow> True)"

text \<open>
  Modelled from the spec: "the StreamMode's corresponding fields", for the missing body of
  \<open>select_mode\<close>: the member of a StreamMode that corresponds to the member of the
  request that a rule selects.
\<close>

fun stream_mode_field_value :: "request_field \<Rightarrow> stream_mode \<Rightarrow> int" where
  "stream_mode_field_value field_width sm = sm_width sm"
| "stream_mode_field_value field_height sm = sm_height sm"
| "stream_mode_field_value field_fps sm = sm_fps sm"

text \<open>
  Modelled from the spec: "the mode's advertised value", for the missing body of
  \<open>select_mode\<close>: the field of the StreamMode that a mode embeds for a stream, if it
  embeds one.
\<close>

definition advertised_value :: "subdevice_mode \<Rightarrow> rs_stream \<Rightarrow> request_field \<Rightarrow> int option" where
  "advertised_value m s fld =
     (case find (\<lambda>sm. stream sm = s) (streams m) of
        None \<Rightarrow> None
      | Some sm \<Rightarrow> Some (stream_mode_field_value fld sm))"

text \<open>
  Modelled from the spec: the rule as a condition on the candidate, in the missing body of
  \<open>select_mode\<close>. "A mode can only be selected if its own StreamMode fields are also
  consistent with the same rule when requests leave a field as "don't care" (the mode's
  advertised value is then substituted for the "don't care" side when checking the rule
  against the other, explicit request)." A mode that embeds no StreamMode for the
  "don't care" stream has no value to substitute and is consistent.
\<close>

definition mode_obeys_rule :: "stream_request list \<Rightarrow> subdevice_mode \<Rightarrow> interstream_rule \<Rightarrow> bool" where
  "mode_obeys_rule requests m rl =
     (case (request_at requests (rule_a rl), request_at requests (rule_b rl)) of
        (Some ra, Some rb) \<Rightarrow>
          (let va = request_field_value (rule_field rl) ra;
               vb = request_field_value (rule_field rl) rb
           in if enabled ra \<and> enabled rb \<and> va = 0 \<and> vb \<noteq> 0
              then (case advertised_value m (rule_a rl) (rule_field rl) of
                      None \<Rightarrow> True
                    | Some v \<Rightarrow> v + rule_delta rl = vb)
              else if enabled ra \<and> enabled rb \<and> va \<noteq> 0 \<and> vb = 0
              then (case advertised_value m (rule_b rl) (rule_field rl) of
                      None \<Rightarrow> True
                    | Some v \<Rightarrow> va + rule_delta rl = v)
              else True)
      | _ \<Rightarrow> True)"

text \<open>
  Modelled from the spec: the candidates of the missing body of \<open>select_mode\<close>. It
  "constrains search to SubdeviceModes whose sub-device field equals subdevice", and a
  candidate meets the two candidate conditions and every rule.
\<close>

definition is_candidate ::
  "rs_enum \<Rightarrow> static_camera_info \<Rightarrow> stream_request list \<Rightarrow> int \<Rightarrow> subdevice_mode \<Rightarrow> bool" where
  "is_candidate RS_FORMAT_ANY info requests subdevice_index m =
     (subdevice m = subdevice_index
      \<and> mode_matches_requests RS_FORMAT_ANY requests m
      \<and> mode_covers_requests info requests subdevice_index m
      \<and> list_all (mode_obeys_rule requests m) (interstream_rules info))"

text \<open>
  Modelled from the spec: the tie-break of the missing body of \<open>select_mode\<close>. "If
  multiple SubdeviceModes remain eligible, pick deterministically: prefer the mode whose
  wire format yields the lowest-overhead unpack path, falling back to
  first-declared-order in the catalog."
\<close>

fun preferred_mode :: "(frame_format \<Rightarrow> nat) \<Rightarrow> subdevice_mode list \<Rightarrow> subdevice_mode option" where
  "preferred_mode overhead [] = None"
| "preferred_mode overhead (m # ms) =
     (case preferred_mode overhead ms of
        None \<Rightarrow> Some m
      | Some m' \<Rightarrow>
          if overhead (sdm_format m') < overhead (sdm_format m) then Some m' else Some m)"

text \<open>
  Modelled from the spec: the body of \<open>select_mode\<close>, which is missing. The result is a
  pointer to a mode of the catalog, or the null pointer: "Returns "no compatible mode"
  (not found) when no candidate survives filtering."
\<close>

definition select_mode ::
  "(frame_format \<Rightarrow> nat) \<Rightarrow> rs_enum \<Rightarrow> static_camera_info \<Rightarrow> stream_request list \<Rightarrow> int
     \<Rightarrow> subdevice_mode option" where
  "select_mode overhead RS_FORMAT_ANY info requests subdevice_index =
     (if list_all (requests_obey_rule requests) (interstream_rules info)
      then preferred_mode overhead
             (filter (is_candidate RS_FORMAT_ANY info requests subdevice_index)
                (subdevice_modes info))
      else None)"

section \<open>Example values\<close>

text \<open>
  Poses over the reals with whole-number entries: the identity orientation, the pose at the
  origin, and the pose that only translates by one unit along \<open>x\<close>.
\<close>

definition identity_orientation :: "real float3x3" where
  "identity_orientation =
     \<lparr>col_x = \<lparr>f3_x = 1, f3_y = 0, f3_z = 0\<rparr>,
      col_y = \<lparr>f3_x = 0, f3_y = 1, f3_z = 0\<rparr>,
      col_z = \<lparr>f3_x = 0, f3_y = 0, f3_z = 1\<rparr>\<rparr>"

definition identity_pose :: "real pose" where
  "identity_pose =
     \<lparr>orientation = identity_orientation, position = \<lparr>f3_x = 0, f3_y = 0, f3_z = 0\<rparr>\<rparr>"

definition unit_x_pose :: "real pose" where
  "unit_x_pose =
     \<lparr>orientation = identity_orientation, position = \<lparr>f3_x = 1, f3_y = 0, f3_z = 0\<rparr>\<rparr>"

text \<open>A quarter turn about the \<open>z\<close> axis, with no translation.\<close>

definition quarter_turn_pose :: "real pose" where
  "quarter_turn_pose =
     \<lparr>orientation =
        \<lparr>col_x = \<lparr>f3_x = 0, f3_y = 1, f3_z = 0\<rparr>,
         col_y = \<lparr>f3_x = - 1, f3_y = 0, f3_z = 0\<rparr>,
         col_z = \<lparr>f3_x = 0, f3_y = 0, f3_z = 1\<rparr>\<rparr>,
      position = \<lparr>f3_x = 0, f3_y = 0, f3_z = 0\<rparr>\<rparr>"

text \<open>A matrix with nine different entries, stored by columns, and a vector.\<close>

definition example_matrix :: "real float3x3" where
  "example_matrix =
     \<lparr>col_x = \<lparr>f3_x = 1, f3_y = 2, f3_z = 3\<rparr>,
      col_y = \<lparr>f3_x = 4, f3_y = 5, f3_z = 6\<rparr>,
      col_z = \<lparr>f3_x = 7, f3_y = 8, f3_z = 9\<rparr>\<rparr>"

definition example_vector :: "real float3" where
  "example_vector = \<lparr>f3_x = 10, f3_y = 20, f3_z = 30\<rparr>"

text \<open>
  A name table for an enumeration with the sentinel \<open>2\<close>, null outside the enumeration.
\<close>

definition example_get_string :: "rs_enum \<Rightarrow> string option" where
  "example_get_string v =
     (if v = 0 then Some ''DEPTH'' else if v = 1 then Some ''COLOR'' else None)"

text \<open>
  A camera with two sub-devices: stream \<open>0\<close> on sub-device \<open>0\<close> and stream \<open>1\<close> on
  sub-device \<open>1\<close>, one mode each at 640 by 480 and 30 frames per second, and one rule,
  that both streams run at the same frame rate. The format value \<open>0\<close> stands for "any".
\<close>

definition example_depth_mode :: subdevice_mode where
  "example_depth_mode =
     \<lparr>subdevice = 0, sdm_width = 640, sdm_height = 480, sdm_format = Z16, sdm_fps = 30,
      streams = [\<lparr>stream = 0, sm_width = 640, sm_height = 480, sm_format = 1, sm_fps = 30,
                  intrinsics_index = 0\<rparr>],
      unpacker = unpack_strided_image, frame_number_decoder = 0\<rparr>"

definition example_color_mode :: subdevice_mode where
  "example_color_mode =
     \<lparr>subdevice = 1, sdm_width = 640, sdm_height = 480, sdm_format = YUYV, sdm_fps = 30,
      streams = [\<lparr>stream = 1, sm_width = 640, sm_height = 480, sm_format = 2, sm_fps = 30,
                  intrinsics_index = 1\<rparr>],
      unpacker = unpack_yuyv_to_rgb, frame_number_decoder = 0\<rparr>"

definition example_info :: static_camera_info where
  "example_info =
     \<lparr>name = ''example'', stream_subdevices = [0, 1],
      subdevice_modes = [example_depth_mode, example_color_mode],
      interstream_rules = [\<lparr>rule_a = 0, rule_b = 1, rule_field = field_fps, rule_delta = 0\<rparr>],
      presets = [], option_supported = []\<rparr>"

text \<open>Depth requested at 640 by 480, any format, 30 frames per second; color disabled.\<close>

definition depth_only_requests :: "stream_request list" where
  "depth_only_requests =
     [\<lparr>enabled = True, req_width = 640, req_height = 480, req_format = 0, req_fps = 30\<rparr>,
      \<lparr>enabled = False, req_width = 0, req_height = 0, req_format = 0, req_fps = 0\<rparr>]"

text \<open>Both streams requested, at 30 and at 60 frames per second: against the rule.\<close>

definition conflicting_requests :: "stream_request list" where
  "conflicting_requests =
     [\<lparr>enabled = True, req_width = 640, req_height = 480, req_format = 0, req_fps = 30\<rparr>,
      \<lparr>enabled = True, req_width = 640, req_height = 480, req_format = 0, req_fps = 60\<rparr>]"

section \<open>Matrices and poses\<close>

lemma index_cases: "0 \<le> i \<Longrightarrow> i \<le> 2 \<Longrightarrow> i = 0 \<or> i = 1 \<or> i = (2::int)"
  by arith

lemmas accessor_defs = float3x3_at_def float3x3_member_def float3_at_def

lemmas float3_defs = float3_add_def float3_scale_def float3x3_apply_def

lemmas pose_defs = pose_mul_def pose_apply_def float3x3_mul_def inverse_pose_def
  transpose_float3x3_def

lemmas example_pose_defs = identity_orientation_def identity_pose_def unit_x_pose_def

text \<open>
  C7. The matrix is stored column-major. For indices \<open>i\<close> and \<open>j\<close> in \<open>0..2\<close>, the accessor
  \<open>M(i,j)\<close> returns component \<open>i\<close> of the \<open>j\<close>-th stored column vector of \<open>M\<close>, and
  component \<open>i\<close> of the matrix-vector product \<open>M*v\<close> is the sum over \<open>j\<close> of
  \<open>M(i,j) * v[j]\<close>, added from the left as the code adds the scaled columns. This holds
  whatever the scalar operations are.
\<close>

theorem float3x3_column_major:
  fixes m :: "'a::{plus,times} float3x3"
  assumes "0 \<le> i" and "i \<le> 2" and "0 \<le> j" and "j \<le> 2"
  shows "(\<exists>c e. float3x3_member m j = Some c \<and> float3_at c i = Some e
              \<and> float3x3_at m i j = Some e)
       \<and> (\<exists>m0 m1 m2 v0 v1 v2.
              float3x3_at m i 0 = Some m0 \<and> float3x3_at m i 1 = Some m1
            \<and> float3x3_at m i 2 = Some m2
            \<and> float3_at v 0 = Some v0 \<and> float3_at v 1 = Some v1 \<and> float3_at v 2 = Some v2
            \<and> float3_at (float3x3_apply m v) i = Some (m0 * v0 + m1 * v1 + m2 * v2))"
proof -
  have i: "i = 0 \<or> i = 1 \<or> i = 2" using assms(1,2) by (rule index_cases)
  have j: "j = 0 \<or> j = 1 \<or> j = 2" using assms(3,4) by (rule index_cases)
  from i j show ?thesis
    by (auto simp add: accessor_defs float3_defs)
qed

theorem float3x3_column_major_witness:
  "(0::int) \<le> 1 \<and> (1::int) \<le> 2 \<and> (0::int) \<le> 2 \<and> (2::int) \<le> 2
   \<and> float3x3_at example_matrix 1 2 = Some 8
   \<and> float3_at (float3x3_apply example_matrix example_vector) 1
       = Some (2 * 10 + 5 * 20 + 8 * 30)"
  using float3x3_column_major [of 1 2 example_matrix example_vector]
  by (simp add: accessor_defs float3_defs example_matrix_def example_vector_def)

text \<open>
  C9. Transposition swaps the indices and is an involution: for indices \<open>i\<close> and \<open>j\<close> in
  \<open>0..2\<close>, \<open>transpose(M)(i,j)\<close> is \<open>M(j,i)\<close>, and \<open>transpose(transpose(M))\<close> is \<open>M\<close>.
\<close>

theorem transpose_float3x3_swaps_indices:
  fixes m :: "'a float3x3"
  assumes "0 \<le> i" and "i \<le> 2" and "0 \<le> j" and "j \<le> 2"
  shows "(\<exists>e. float3x3_at m j i = Some e
            \<and> float3x3_at (transpose_float3x3 m) i j = Some e)
       \<and> transpose_float3x3 (transpose_float3x3 m) = m"
proof -
  have i: "i = 0 \<or> i = 1 \<or> i = 2" using assms(1,2) by (rule index_cases)
  have j: "j = 0 \<or> j = 1 \<or> j = 2" using assms(3,4) by (rule index_cases)
  have swap: "\<exists>e. float3x3_at m j i = Some e
                 \<and> float3x3_at (transpose_float3x3 m) i j = Some e"
    using i j by (auto simp add: accessor_defs transpose_float3x3_def)
  have twice: "transpose_float3x3 (transpose_float3x3 m) = m"
    by (simp add: transpose_float3x3_def)
  from swap twice show ?thesis ..
qed

theorem transpose_float3x3_swaps_indices_witness:
  "(0::int) \<le> 1 \<and> (1::int) \<le> 2 \<and> (0::int) \<le> 2 \<and> (2::int) \<le> 2
   \<and> float3x3_at example_matrix 2 1 = Some 6
   \<and> float3x3_at (transpose_float3x3 example_matrix) 1 2 = Some 6
   \<and> transpose_float3x3 (transpose_float3x3 example_matrix) = example_matrix"
  using transpose_float3x3_swaps_indices [of 1 2 example_matrix]
  by (simp add: accessor_defs transpose_float3x3_def example_matrix_def)

text \<open>
  What the composition computes, for all poses and whatever the scalar operations are:
  the position of \<open>a\<close> enters twice, once in \<open>a.position +\<close> and once more inside
  \<open>a * b.position\<close>, which is the pose applied to a point.
\<close>

lemma pose_mul_components:
  "orientation (pose_mul a b) = float3x3_mul (orientation a) (orientation b)"
  "position (pose_mul a b)
     = float3_add (position a)
         (float3_add (float3x3_apply (orientation a) (position b)) (position a))"
  by (simp_all add: pose_mul_def pose_apply_def)

text \<open>
  C1. Pose composition returns the orientation \<open>A.orientation * B.orientation\<close> and the
  position \<open>A.position + A.orientation * B.position\<close>. The code does not: composing the
  unit translation along \<open>x\<close> with the identity pose, it returns the position \<open>(2, 0, 0)\<close>,
  where \<open>A.position + A.orientation * B.position\<close> is \<open>(1, 0, 0)\<close>.
\<close>

theorem pose_mul_adds_position_twice:
  "pose_mul unit_x_pose identity_pose
     = \<lparr>orientation = identity_orientation, position = \<lparr>f3_x = 2, f3_y = 0, f3_z = 0\<rparr>\<rparr>
   \<and> float3_add (position unit_x_pose)
         (float3x3_apply (orientation unit_x_pose) (position identity_pose))
     = \<lparr>f3_x = 1, f3_y = 0, f3_z = 0\<rparr>"
  by (simp add: pose_defs float3_defs example_pose_defs)

text \<open>
  C2. For an orthonormal pose \<open>P\<close>, composing \<open>inverse(P)\<close> with \<open>P\<close> yields the identity
  pose. The code does not: for the unit translation along \<open>x\<close>, whose orientation is the
  identity matrix, the inverse has the position \<open>(-1, 0, 0)\<close>, and the composition of the
  inverse with the pose has the position \<open>(-1, 0, 0)\<close> again, not the zero vector.
\<close>

theorem inverse_pose_mul_not_identity:
  "inverse_pose unit_x_pose
     = \<lparr>orientation = identity_orientation, position = \<lparr>f3_x = - 1, f3_y = 0, f3_z = 0\<rparr>\<rparr>
   \<and> pose_mul (inverse_pose unit_x_pose) unit_x_pose
     = \<lparr>orientation = identity_orientation, position = \<lparr>f3_x = - 1, f3_y = 0, f3_z = 0\<rparr>\<rparr>
   \<and> pose_mul (inverse_pose unit_x_pose) unit_x_pose \<noteq> identity_pose"
  by (simp add: pose_defs float3_defs example_pose_defs)

text \<open>
  C3. Pose composition is associative and not commutative. In the code it is not
  associative: with \<open>A\<close> the unit translation along \<open>x\<close> and \<open>B\<close>, \<open>C\<close> the identity pose,
  \<open>(A * B) * C\<close> has the position \<open>(4, 0, 0)\<close> and \<open>A * (B * C)\<close> has \<open>(2, 0, 0)\<close>.
\<close>

theorem pose_mul_not_associative:
  "pose_mul (pose_mul unit_x_pose identity_pose) identity_pose
     = \<lparr>orientation = identity_orientation, position = \<lparr>f3_x = 4, f3_y = 0, f3_z = 0\<rparr>\<rparr>
   \<and> pose_mul unit_x_pose (pose_mul identity_pose identity_pose)
     = \<lparr>orientation = identity_orientation, position = \<lparr>f3_x = 2, f3_y = 0, f3_z = 0\<rparr>\<rparr>
   \<and> pose_mul (pose_mul unit_x_pose identity_pose) identity_pose
     \<noteq> pose_mul unit_x_pose (pose_mul identity_pose identity_pose)"
  by (simp add: pose_defs float3_defs example_pose_defs)

text \<open>
  The composition does not commute: a quarter turn about \<open>z\<close> followed by, or following,
  the unit translation along \<open>x\<close> gives two different positions.
\<close>

lemma pose_mul_not_commutative:
  "position (pose_mul quarter_turn_pose unit_x_pose) = \<lparr>f3_x = 0, f3_y = 1, f3_z = 0\<rparr>"
  "position (pose_mul unit_x_pose quarter_turn_pose) = \<lparr>f3_x = 2, f3_y = 0, f3_z = 0\<rparr>"
  "pose_mul quarter_turn_pose unit_x_pose \<noteq> pose_mul unit_x_pose quarter_turn_pose"
  by (simp_all add: pose_defs float3_defs example_pose_defs quarter_turn_pose_def)

section \<open>Enumerations\<close>

text \<open>
  C8. For each enumerated type (stream identifiers, pixel formats, presets, distortion
  models, options), \<open>is_valid(v)\<close> is true if and only if \<open>v\<close> is at least \<open>0\<close> and strictly
  less than the \<open>COUNT\<close> sentinel of the type. The five sentinels are arbitrary here.
\<close>

theorem is_valid_range:
  "(is_valid RS_STREAM_COUNT v \<longleftrightarrow> 0 \<le> v \<and> v < RS_STREAM_COUNT)
   \<and> (is_valid RS_FORMAT_COUNT v \<longleftrightarrow> 0 \<le> v \<and> v < RS_FORMAT_COUNT)
   \<and> (is_valid RS_PRESET_COUNT v \<longleftrightarrow> 0 \<le> v \<and> v < RS_PRESET_COUNT)
   \<and> (is_valid RS_DISTORTION_COUNT v \<longleftrightarrow> 0 \<le> v \<and> v < RS_DISTORTION_COUNT)
   \<and> (is_valid RS_OPTION_COUNT v \<longleftrightarrow> 0 \<le> v \<and> v < RS_OPTION_COUNT)"
  by (simp add: is_valid_def)

text \<open>The decimal digits of some numbers, as \<open>decimal_int\<close> writes them.\<close>

lemma decimal_int_examples:
  "decimal_int 0 = ''0''"
  "decimal_int 7 = ''7''"
  "decimal_int 1203 = ''1203''"
  "decimal_int (- 45) = ''-45''"
  by (simp_all add: decimal_int_def digit_char_def)

text \<open>
  C10. The printing operator of an enumerated type is total over all integer values: it
  writes the name when \<open>is_valid(v)\<close> holds and the decimal integer value of \<open>v\<close>
  otherwise, and it looks no name up outside the enumerated range. Here every valid value
  has a name (\<open>get_string\<close> returns no null pointer for it); the result then does not
  depend on what \<open>get_string\<close> would return for any other value.
\<close>

theorem put_enum_total:
  assumes "\<forall>u. is_valid COUNT u \<longrightarrow> (\<exists>nm. get_string u = Some nm)"
  shows "(\<exists>s. put_enum get_string COUNT out v = Some (out @ s)
            \<and> (if is_valid COUNT v then get_string v = Some s else s = decimal_int v))
       \<and> ((\<forall>u. is_valid COUNT u \<longrightarrow> other u = get_string u)
            \<longrightarrow> put_enum other COUNT out v = put_enum get_string COUNT out v)"
proof -
  show ?thesis
  proof (cases "is_valid COUNT v")
    case True
    with assms obtain nm where "get_string v = Some nm" by blast
    with True show ?thesis by (simp add: put_enum_def put_string_def)
  next
    case False
    then show ?thesis by (simp add: put_enum_def)
  qed
qed

theorem put_enum_total_witness:
  "example_get_string 0 = Some ''DEPTH'' \<and> example_get_string 1 = Some ''COLOR''
   \<and> put_enum example_get_string 2 ''stream '' 1 = Some ''stream COLOR''
   \<and> put_enum example_get_string 2 ''stream '' 7 = Some ''stream 7''
   \<and> put_enum example_get_string 2 ''stream '' (- 45) = Some ''stream -45''"
proof -
  have names: "\<forall>u. is_valid 2 u \<longrightarrow> (\<exists>nm. example_get_string u = Some nm)"
    by (auto simp add: is_valid_def example_get_string_def)
  have valid: "is_valid 2 1" "\<not> is_valid 2 7" "\<not> is_valid 2 (- 45)"
    by (simp_all add: is_valid_def)
  from put_enum_total [OF names, of "''stream ''" 1] valid(1)
  have one: "put_enum example_get_string 2 ''stream '' 1 = Some ''stream COLOR''"
    by (auto simp add: example_get_string_def)
  from put_enum_total [OF names, of "''stream ''" 7] valid(2)
  have seven: "put_enum example_get_string 2 ''stream '' 7 = Some ''stream 7''"
    by (auto simp add: decimal_int_examples)
  from put_enum_total [OF names, of "''stream ''" "- 45"] valid(3)
  have minus: "put_enum example_get_string 2 ''stream '' (- 45) = Some ''stream -45''"
    by (auto simp add: decimal_int_examples)
  from one seven minus show ?thesis by (simp add: example_get_string_def)
qed

section \<open>Field of view\<close>

text \<open>
  The function \<open>atan2f\<close> above is the two-argument arctangent: away from the origin its
  value is the angle of the point \<open>(x, y)\<close>, and it lies in \<open>(-pi, pi]\<close>.
\<close>

lemma sqrt_one_plus_ratio_pos:
  fixes x y :: real
  assumes "0 < x"
  shows "sqrt (1 + (y / x)\<^sup>2) = sqrt (x\<^sup>2 + y\<^sup>2) / x"
proof -
  have "1 + (y / x)\<^sup>2 = (x\<^sup>2 + y\<^sup>2) / x\<^sup>2"
    using assms by (simp add: field_simps power2_eq_square)
  then have "sqrt (1 + (y / x)\<^sup>2) = sqrt (x\<^sup>2 + y\<^sup>2) / sqrt (x\<^sup>2)"
    by (simp add: real_sqrt_divide)
  then show ?thesis using assms by simp
qed

lemma sqrt_one_plus_ratio_neg:
  fixes x y :: real
  assumes "x < 0"
  shows "sqrt (1 + (y / x)\<^sup>2) = - (sqrt (x\<^sup>2 + y\<^sup>2) / x)"
proof -
  have "1 + (y / x)\<^sup>2 = (x\<^sup>2 + y\<^sup>2) / x\<^sup>2"
    using assms by (simp add: field_simps power2_eq_square)
  then have "sqrt (1 + (y / x)\<^sup>2) = sqrt (x\<^sup>2 + y\<^sup>2) / sqrt (x\<^sup>2)"
    by (simp add: real_sqrt_divide)
  then show ?thesis using assms by simp
qed

lemma atan2f_is_angle:
  assumes "x \<noteq> 0 \<or> y \<noteq> 0"
  shows "cos (atan2f y x) = x / sqrt (x\<^sup>2 + y\<^sup>2)"
    and "sin (atan2f y x) = y / sqrt (x\<^sup>2 + y\<^sup>2)"
proof -
  consider "0 < x" | "x < 0" | "x = 0" "0 < y" | "x = 0" "y < 0"
    using assms by linarith
  then have "cos (atan2f y x) = x / sqrt (x\<^sup>2 + y\<^sup>2)
           \<and> sin (atan2f y x) = y / sqrt (x\<^sup>2 + y\<^sup>2)"
  proof cases
    case 1
    then show ?thesis
      by (simp add: atan2f_def cos_arctan sin_arctan sqrt_one_plus_ratio_pos)
  next
    case 2
    then show ?thesis
      by (simp add: atan2f_def cos_arctan sin_arctan sqrt_one_plus_ratio_neg)
  next
    case 3
    then show ?thesis by (simp add: atan2f_def)
  next
    case 4
    then show ?thesis by (simp add: atan2f_def)
  qed
  then show "cos (atan2f y x) = x / sqrt (x\<^sup>2 + y\<^sup>2)"
    and "sin (atan2f y x) = y / sqrt (x\<^sup>2 + y\<^sup>2)"
    by simp_all
qed

lemma atan2f_range: "- pi < atan2f y x \<and> atan2f y x \<le> pi"
proof -
  have bounds: "- (pi / 2) < arctan (y / x)" "arctan (y / x) < pi / 2"
    by (rule arctan_lbound, rule arctan_ubound)
  have upper: "0 \<le> y \<Longrightarrow> x < 0 \<Longrightarrow> arctan (y / x) \<le> 0"
    by (simp add: divide_nonneg_neg arctan_le_zero_iff)
  have lower: "y < 0 \<Longrightarrow> x < 0 \<Longrightarrow> 0 < arctan (y / x)"
    by (simp add: divide_neg_neg)
  show ?thesis
    using bounds upper lower pi_gt_zero by (auto simp add: atan2f_def)
qed

text \<open>
  C6. For every image size, focal length and principal point, the field-of-view helper
  returns \<open>atan2(principal_point + 0.5, focal_length)
  + atan2(image_size - principal_point - 0.5, focal_length)\<close>, converted from radians to
  degrees. This is the statement in exact real arithmetic.
\<close>

theorem compute_fov_degrees:
  "compute_fov image_size focal_length principal_point
     = radians_to_degrees
         (atan2f (principal_point + 1 / 2) focal_length
          + atan2f (real_of_int image_size - principal_point - 1 / 2) focal_length)"
  by (simp add: compute_fov_def radians_to_degrees_def)

text \<open>
  With the principal point at the centre of the image and a positive focal length, this
  is the usual field of view of a pinhole camera, twice the half-angle.
\<close>

lemma compute_fov_centred:
  assumes "0 < focal_length"
  shows "compute_fov image_size focal_length (real_of_int image_size / 2 - 1 / 2)
           = radians_to_degrees (2 * arctan (real_of_int image_size / (2 * focal_length)))"
proof -
  have half: "real_of_int image_size - (real_of_int image_size / 2 - 1 / 2) - 5 / 10
                = real_of_int image_size / 2"
    by (simp add: field_simps)
  have same: "real_of_int image_size / 2 / focal_length
                = real_of_int image_size / (2 * focal_length)"
    by simp
  show ?thesis
    using assms by (simp add: compute_fov_def radians_to_degrees_def atan2f_def half same)
qed

section \<open>Mode selection\<close>

lemma preferred_mode_member: "preferred_mode overhead ms = Some m \<Longrightarrow> m \<in> set ms"
  by (induction ms arbitrary: m) (auto split: option.splits if_splits)

lemma select_mode_is_candidate:
  assumes "select_mode overhead RS_FORMAT_ANY info requests subdevice_index = Some m"
  shows "m \<in> set (subdevice_modes info)"
    and "is_candidate RS_FORMAT_ANY info requests subdevice_index m"
proof -
  let ?cands = "filter (is_candidate RS_FORMAT_ANY info requests subdevice_index)
                  (subdevice_modes info)"
  from assms have "preferred_mode overhead ?cands = Some m"
    by (simp add: select_mode_def split: if_splits)
  then have "m \<in> set ?cands" by (rule preferred_mode_member)
  then show "m \<in> set (subdevice_modes info)"
    and "is_candidate RS_FORMAT_ANY info requests subdevice_index m"
    by simp_all
qed

lemmas example_camera_defs = example_info_def example_depth_mode_def example_color_mode_def

lemmas select_mode_defs = select_mode_def is_candidate_def mode_matches_requests_def
  mode_covers_requests_def mode_obeys_rule_def requests_obey_rule_def request_matches_def
  request_at_def stream_enabled_def subdevice_of_stream_def advertised_value_def

text \<open>
  C4. \<open>select_mode\<close> returns a SubdeviceMode only if its sub-device field equals the given
  index and, for every StreamMode it embeds whose stream is enabled in the requests, the
  request's width and height (when nonzero), format (when not "any") and fps (when
  nonzero) equal the fields of the StreamMode; a zero or "any" field of the request
  matches any value of the StreamMode: the comparison of a request with a StreamMode is
  exactly the conjunction of these four conditions, so that a request with all four fields
  "don't care" matches every StreamMode.
\<close>

theorem select_mode_matches_requests:
  assumes "select_mode overhead RS_FORMAT_ANY info requests subdevice_index = Some m"
  shows "m \<in> set (subdevice_modes info) \<and> subdevice m = subdevice_index
       \<and> (\<forall>sm \<in> set (streams m). \<forall>r.
             request_at requests (stream sm) = Some r \<and> enabled r \<longrightarrow>
               (req_width r \<noteq> 0 \<longrightarrow> req_width r = sm_width sm)
             \<and> (req_height r \<noteq> 0 \<longrightarrow> req_height r = sm_height sm)
             \<and> (req_format r \<noteq> RS_FORMAT_ANY \<longrightarrow> req_format r = sm_format sm)
             \<and> (req_fps r \<noteq> 0 \<longrightarrow> req_fps r = sm_fps sm))
       \<and> (\<forall>r' sm'. request_matches RS_FORMAT_ANY r' sm' \<longleftrightarrow>
               (req_width r' \<noteq> 0 \<longrightarrow> req_width r' = sm_width sm')
             \<and> (req_height r' \<noteq> 0 \<longrightarrow> req_height r' = sm_height sm')
             \<and> (req_format r' \<noteq> RS_FORMAT_ANY \<longrightarrow> req_format r' = sm_format sm')
             \<and> (req_fps r' \<noteq> 0 \<longrightarrow> req_fps r' = sm_fps sm'))
       \<and> (\<forall>e sm'. request_matches RS_FORMAT_ANY
             \<lparr>enabled = e, req_width = 0, req_height = 0, req_format = RS_FORMAT_ANY,
              req_fps = 0\<rparr> sm')"
proof -
  have mem: "m \<in> set (subdevice_modes info)"
    and cand: "is_candidate RS_FORMAT_ANY info requests subdevice_index m"
    using assms by (rule select_mode_is_candidate)+
  from cand have sub: "subdevice m = subdevice_index"
    and all: "mode_matches_requests RS_FORMAT_ANY requests m"
    by (simp_all add: is_candidate_def)
  have each: "request_matches RS_FORMAT_ANY r sm"
    if "sm \<in> set (streams m)" and "request_at requests (stream sm) = Some r" and "enabled r"
    for sm r
    using all that by (auto simp add: mode_matches_requests_def list_all_iff)
  have fields: "request_matches RS_FORMAT_ANY r' sm' \<longleftrightarrow>
               (req_width r' \<noteq> 0 \<longrightarrow> req_width r' = sm_width sm')
             \<and> (req_height r' \<noteq> 0 \<longrightarrow> req_height r' = sm_height sm')
             \<and> (req_format r' \<noteq> RS_FORMAT_ANY \<longrightarrow> req_format r' = sm_format sm')
             \<and> (req_fps r' \<noteq> 0 \<longrightarrow> req_fps r' = sm_fps sm')" for r' sm'
    by (auto simp add: request_matches_def)
  have dont_care: "request_matches RS_FORMAT_ANY
             \<lparr>enabled = e, req_width = 0, req_height = 0, req_format = RS_FORMAT_ANY,
              req_fps = 0\<rparr> sm'" for e sm'
    by (simp add: request_matches_def)
  have selected: "\<forall>sm \<in> set (streams m). \<forall>r.
             request_at requests (stream sm) = Some r \<and> enabled r \<longrightarrow>
               (req_width r \<noteq> 0 \<longrightarrow> req_width r = sm_width sm)
             \<and> (req_height r \<noteq> 0 \<longrightarrow> req_height r = sm_height sm)
             \<and> (req_format r \<noteq> RS_FORMAT_ANY \<longrightarrow> req_format r = sm_format sm)
             \<and> (req_fps r \<noteq> 0 \<longrightarrow> req_fps r = sm_fps sm)"
    using each fields by blast
  from mem sub selected fields dont_care show ?thesis by blast
qed

theorem select_mode_matches_requests_witness:
  "select_mode (\<lambda>f. 0) 0 example_info depth_only_requests 0 = Some example_depth_mode
   \<and> example_depth_mode \<in> set (subdevice_modes example_info)
   \<and> subdevice example_depth_mode = 0
   \<and> request_at depth_only_requests (stream (hd (streams example_depth_mode)))
       = Some (hd depth_only_requests)
   \<and> enabled (hd depth_only_requests)
   \<and> req_width (hd depth_only_requests) = sm_width (hd (streams example_depth_mode))
   \<and> req_height (hd depth_only_requests) = sm_height (hd (streams example_depth_mode))
   \<and> req_format (hd depth_only_requests) = 0
   \<and> req_fps (hd depth_only_requests) = sm_fps (hd (streams example_depth_mode))"
proof -
  have sel: "select_mode (\<lambda>f. 0) 0 example_info depth_only_requests 0
               = Some example_depth_mode"
    by (simp add: select_mode_defs example_camera_defs depth_only_requests_def)
  have sm: "hd (streams example_depth_mode) \<in> set (streams example_depth_mode)"
    by (simp add: example_depth_mode_def)
  have r: "request_at depth_only_requests (stream (hd (streams example_depth_mode)))
             = Some (hd depth_only_requests)"
    by (simp add: request_at_def example_depth_mode_def depth_only_requests_def)
  have en: "enabled (hd depth_only_requests)"
    and explicit: "req_width (hd depth_only_requests) \<noteq> 0"
      "req_height (hd depth_only_requests) \<noteq> 0" "req_fps (hd depth_only_requests) \<noteq> 0"
    and any: "req_format (hd depth_only_requests) = 0"
    by (simp_all add: depth_only_requests_def)
  from select_mode_matches_requests [OF sel] sm r en explicit
  have "example_depth_mode \<in> set (subdevice_modes example_info)
      \<and> subdevice example_depth_mode = 0
      \<and> req_width (hd depth_only_requests) = sm_width (hd (streams example_depth_mode))
      \<and> req_height (hd depth_only_requests) = sm_height (hd (streams example_depth_mode))
      \<and> req_fps (hd depth_only_requests) = sm_fps (hd (streams example_depth_mode))"
    by blast
  with sel r en any show ?thesis by simp
qed

text \<open>
  C5. For every interstream rule of the camera and every request array in which both
  streams of the rule are enabled with explicit (nonzero) values of the rule's field, if
  the value for stream \<open>a\<close> plus \<open>delta\<close> differs from the value for stream \<open>b\<close>, then
  \<open>select_mode\<close> returns "no compatible mode" (the null result), for every sub-device
  index and whatever the other fields and the catalog are.
\<close>

theorem select_mode_rule_violation:
  assumes "rl \<in> set (interstream_rules info)"
    and "request_at requests (rule_a rl) = Some ra" and "enabled ra"
    and "request_at requests (rule_b rl) = Some rb" and "enabled rb"
    and "request_field_value (rule_field rl) ra \<noteq> 0"
    and "request_field_value (rule_field rl) rb \<noteq> 0"
    and "request_field_value (rule_field rl) ra + rule_delta rl
           \<noteq> request_field_value (rule_field rl) rb"
  shows "select_mode overhead RS_FORMAT_ANY info requests subdevice_index = None"
proof -
  have "\<not> requests_obey_rule requests rl"
    using assms(2-8) by (simp add: requests_obey_rule_def)
  with assms(1) have "\<not> list_all (requests_obey_rule requests) (interstream_rules info)"
    by (auto simp add: list_all_iff)
  then show ?thesis by (simp add: select_mode_def)
qed

theorem select_mode_rule_violation_witness:
  "\<lparr>rule_a = 0, rule_b = 1, rule_field = field_fps, rule_delta = 0\<rparr>
     \<in> set (interstream_rules example_info)
   \<and> request_at conflicting_requests 0
       = Some \<lparr>enabled = True, req_width = 640, req_height = 480, req_format = 0,
               req_fps = 30\<rparr>
   \<and> request_at conflicting_requests 1
       = Some \<lparr>enabled = True, req_width = 640, req_height = 480, req_format = 0,
               req_fps = 60\<rparr>
   \<and> (30::int) + 0 \<noteq> 60
   \<and> select_mode (\<lambda>f. 0) 0 example_info conflicting_requests 0 = None
   \<and> select_mode (\<lambda>f. 0) 0 example_info conflicting_requests 1 = None"
proof -
  let ?rl = "\<lparr>rule_a = 0, rule_b = 1, rule_field = field_fps, rule_delta = 0\<rparr>"
  let ?ra = "\<lparr>enabled = True, req_width = 640, req_height = 480, req_format = 0,
              req_fps = 30\<rparr>"
  let ?rb = "\<lparr>enabled = True, req_width = 640, req_height = 480, req_format = 0,
              req_fps = 60\<rparr>"
  have rule: "?rl \<in> set (interstream_rules example_info)"
    by (simp add: example_info_def)
  have a: "request_at conflicting_requests (rule_a ?rl) = Some ?ra"
    by (simp add: request_at_def conflicting_requests_def)
  have b: "request_at conflicting_requests (rule_b ?rl) = Some ?rb"
    by (simp add: request_at_def conflicting_requests_def)
  have none: "select_mode (\<lambda>f. 0) 0 example_info conflicting_requests i = None" for i
    by (rule select_mode_rule_violation [OF rule a _ b]) simp_all
  from rule a b none [of 0] none [of 1] show ?thesis by simp
qed

end
